theory Spec2Isabelle
  imports Complex_Main
begin

section \<open>Rocket race dashboard: source resolution, normalisation, analytics\<close>

text \<open>
  A shallow embedding of \<^verbatim>\<open>dashboard.py\<close>: \<^verbatim>\<open>load_race_data\<close> (which file
  is read, and how its records become the rows of the data frame) and the computations
  of \<^verbatim>\<open>main\<close> on that frame (raced or pending, search, performance comparison,
  fun facts).

  Modelling conventions.
  \<^item> The file system is a value: what \<^verbatim>\<open>os.path.exists\<close>, \<^verbatim>\<open>glob.glob\<close>,
    \<^verbatim>\<open>os.path.getctime\<close>, \<^verbatim>\<open>json.load\<close> and \<^verbatim>\<open>pd.read_csv\<close> return.
  \<^item> JSON is typed: a per-participant record carries each of its eight keys with a
    value of the expected type, or not at all (\<open>None\<close>). A float is the real number
    it stands for, and the arithmetic of floats is a parameter of the model; \<open>NaN\<close>,
    the missing value of pandas, is \<open>None\<close>.
  \<^item> Strings are ASCII.
  \<^item> A Python exception is a value \<open>Inl e\<close> of a sum type; the handler
    \<^verbatim>\<open>except Exception\<close> is the case distinction that consumes it.
  \<^item> A data frame is its list of rows together with the names of the columns it has:
    reading a column that is not there raises \<^verbatim>\<open>KeyError\<close>. The index of every
    frame built here is the default one, \<open>0, 1, ...\<close>, so a label is a position.
\<close>

subsection \<open>Data model\<close>

datatype error =
  KeyError string
  | ValueError
  | TypeError
  | AttributeError
  | ReadError
  | StreamlitAPIException

text \<open>One entry of the \<^verbatim>\<open>results\<close> array of a race file, keys as the game writes them.\<close>

record raw_result =
  username :: "string option"
  fullName :: "string option"
  raceTime :: "real option"
  averageSpeed :: "real option"
  boostsUsed :: "int option"
  collisions :: "int option"
  distanceCovered :: "real option"
  rank :: "int option"

text \<open>
  The values stored under the keys of a race file: scalars, and the array of
  per-participant records.
\<close>

datatype jvalue =
  JNull
  | JNum real
  | JStr string
  | JRecords "raw_result list"

text \<open>
  What \<^verbatim>\<open>json.load\<close> returns: a dict, or some other JSON value, of which the code
  only ever tests the truth value.
\<close>

datatype document =
  Dict "(string \<times> jvalue) list"
  | NonDict bool

datatype file_state =
  Missing
  | Unreadable
  | Parsed document

record race_file =
  path :: string
  getctime :: real
  file_content :: file_state

text \<open>One line of the participant export, as \<^verbatim>\<open>pd.read_csv\<close> returns it.\<close>

record csv_row =
  csv_Username :: "string option"
  csv_Full_Name :: "string option"

text \<open>
  \<open>race_files\<close> is the list \<^verbatim>\<open>glob.glob('rocket_race_results_*.json')\<close> returns, in
  the order it returns it (the order of the directory listing, which is not sorted); a
  \<open>path\<close> in it has no directory part, so it is its own \<^verbatim>\<open>basename\<close>.
  \<open>participants_csv\<close> is \<open>None\<close> when reading the export raises.
\<close>

record filesystem =
  latest_results :: file_state
  race_files :: "race_file list"
  participants_csv :: "csv_row list option"

text \<open>
  A cell of a column of integers. pandas stores a column of ints as \<^verbatim>\<open>int64\<close>, and as
  \<^verbatim>\<open>float64\<close> as soon as one of its cells is missing: \<open>Coerced n\<close> is the float that
  the int \<open>n\<close> has become there (\<open>2.0\<close> for \<open>2\<close>).
\<close>

datatype int_cell =
  Exact int
  | Coerced int

text \<open>A row of the data frame, columns as \<^verbatim>\<open>load_race_data\<close> names them.\<close>

record race_result =
  Username :: "string option"
  Full_Name :: "string option"
  Race_Time :: "real option"
  Speed :: "real option"
  Boosts_Used :: "int_cell option"
  Collisions :: "int_cell option"
  Distance_Covered :: "real option"
  Rank :: "int_cell option"

record frame =
  columns :: "string list"
  rows :: "race_result list"

datatype data_source =
  Unknown
  | Latest_Results
  | Backup_File string
  | CSV_participant_list

subsection \<open>Source resolution (\<^verbatim>\<open>load_race_data\<close>, methods 1 and 2)\<close>

text \<open>The truth value of \<^verbatim>\<open>race_data\<close>: \<^verbatim>\<open>None\<close> and the empty dict are false.\<close>

fun truthy :: "document option \<Rightarrow> bool" where
  "truthy None = False"
| "truthy (Some (Dict d)) = (d \<noteq> [])"
| "truthy (Some (NonDict b)) = b"

text \<open>
  Method 1: the value of \<^verbatim>\<open>race_data\<close> after the block on
  \<^verbatim>\<open>latest_race_results.json\<close>. Every exception of the block (the file cannot be
  read, or the parsed value has no \<^verbatim>\<open>get\<close>) is caught there and leaves
  \<^verbatim>\<open>race_data = None\<close>.
\<close>

fun try_latest :: "file_state \<Rightarrow> document option" where
  "try_latest Missing = None"
| "try_latest Unreadable = None"
| "try_latest (Parsed (NonDict b)) = None"
| "try_latest (Parsed (Dict latest_data)) =
     (if map_of latest_data ''status'' = Some (JStr ''completed'')
         \<and> map_of latest_data ''results'' \<noteq> None
      then Some (Dict latest_data) else None)"

text \<open>
  \<^verbatim>\<open>max(race_files, key=os.path.getctime)\<close>: Python's \<^verbatim>\<open>max\<close> keeps the element
  it holds unless the next one is strictly greater.
\<close>

fun max_from :: "('a \<Rightarrow> real) \<Rightarrow> 'a \<Rightarrow> 'a list \<Rightarrow> 'a" where
  "max_from key best [] = best"
| "max_from key best (x # xs) =
     (if key best < key x then max_from key x xs else max_from key best xs)"

definition py_max :: "('a \<Rightarrow> real) \<Rightarrow> 'a list \<Rightarrow> error + 'a" where
  "py_max key xs = (case xs of [] \<Rightarrow> Inl ValueError | x # ys \<Rightarrow> Inr (max_from key x ys))"

text \<open>Method 2, entered when \<^verbatim>\<open>race_data\<close> is false after method 1.\<close>

definition read_backup :: "race_file list \<Rightarrow> error + (document option \<times> data_source)" where
  "read_backup fs =
     (case py_max getctime fs of
        Inl e \<Rightarrow> Inl e
      | Inr latest_file \<Rightarrow>
          (case file_content latest_file of
             Parsed race_data \<Rightarrow> Inr (Some race_data, Backup_File (path latest_file))
           | _ \<Rightarrow> Inl ReadError))"

text \<open>
  Lines 65 to 96: the value of \<^verbatim>\<open>race_data\<close> and of \<^verbatim>\<open>data_source\<close> when the
  third step starts, or the exception that reading the chosen backup file raised.
\<close>

definition resolve :: "filesystem \<Rightarrow> error + (document option \<times> data_source)" where
  "resolve s =
     (let race_data = try_latest (latest_results s);
          data_source = (if race_data = None then Unknown else Latest_Results)
      in if \<not> truthy race_data
         then (if race_files s \<noteq> [] then read_backup (race_files s)
               else Inr (race_data, data_source))
         else Inr (race_data, data_source))"

subsection \<open>Normalisation (\<^verbatim>\<open>load_race_data\<close>, third step)\<close>

text \<open>
  \<^verbatim>\<open>pd.DataFrame(race_data['results'])\<close>. From a list of records the frame gets one
  row per record, in order, and a column for every key that some record carries (the
  order of the columns is not modelled: \<open>columns\<close> is only ever asked whether a name is
  in it); a cell whose record lacks the key is \<open>NaN\<close>. \<^verbatim>\<open>pd.DataFrame(None)\<close> is the frame with
  no row and no column, and a string or a number is refused with \<^verbatim>\<open>ValueError\<close>.
\<close>

definition keys_of :: "raw_result \<Rightarrow> string list" where
  "keys_of r =
     (if username r \<noteq> None then [''username''] else []) @
     (if fullName r \<noteq> None then [''fullName''] else []) @
     (if raceTime r \<noteq> None then [''raceTime''] else []) @
     (if averageSpeed r \<noteq> None then [''averageSpeed''] else []) @
     (if boostsUsed r \<noteq> None then [''boostsUsed''] else []) @
     (if collisions r \<noteq> None then [''collisions''] else []) @
     (if distanceCovered r \<noteq> None then [''distanceCovered''] else []) @
     (if rank r \<noteq> None then [''rank''] else [])"

text \<open>
  The cell of a record in a column of ints: exact when every record of the list carries
  the key, coerced to a float when some record lacks it.
\<close>

definition int_column ::
  "(raw_result \<Rightarrow> int option) \<Rightarrow> raw_result list \<Rightarrow> raw_result \<Rightarrow> int_cell option" where
  "int_column key rs r =
     (case key r of
        None \<Rightarrow> None
      | Some n \<Rightarrow> Some (if list_all (\<lambda>x. key x \<noteq> None) rs then Exact n else Coerced n))"

definition to_row :: "raw_result list \<Rightarrow> raw_result \<Rightarrow> race_result" where
  "to_row rs r =
     \<lparr>Username = username r, Full_Name = fullName r, Race_Time = raceTime r,
      Speed = averageSpeed r, Boosts_Used = int_column boostsUsed rs r,
      Collisions = int_column collisions rs r,
      Distance_Covered = distanceCovered r, Rank = int_column rank rs r\<rparr>"

text \<open>The keys in the order of their first appearance.\<close>

fun unique :: "'a list \<Rightarrow> 'a list" where
  "unique [] = []"
| "unique (x # xs) = x # filter (\<lambda>y. y \<noteq> x) (unique xs)"

fun DataFrame :: "jvalue \<Rightarrow> error + frame" where
  "DataFrame (JRecords rs) =
     Inr \<lparr>columns = unique (concat (map keys_of rs)), rows = map (to_row rs) rs\<rparr>"
| "DataFrame JNull = Inr \<lparr>columns = [], rows = []\<rparr>"
| "DataFrame (JNum x) = Inl ValueError"
| "DataFrame (JStr x) = Inl ValueError"

text \<open>\<^verbatim>\<open>df.rename(columns={...})\<close>: the translation table of lines 103 to 112.\<close>

definition column_names :: "(string \<times> string) list" where
  "column_names =
     [(''username'', ''Username''), (''fullName'', ''Full Name''),
      (''raceTime'', ''Race Time (s)''), (''averageSpeed'', ''Speed (km/h)''),
      (''boostsUsed'', ''Boosts Used''), (''collisions'', ''Collisions''),
      (''distanceCovered'', ''Distance Covered (km)''), (''rank'', ''Rank'')]"

definition rename :: "frame \<Rightarrow> frame" where
  "rename df =
     df\<lparr>columns :=
          map (\<lambda>k. case map_of column_names k of None \<Rightarrow> k | Some c \<Rightarrow> c) (columns df)\<rparr>"

text \<open>
  The \<^verbatim>\<open>.str\<close> accessor of a column read from a file: pandas refuses it with
  \<^verbatim>\<open>AttributeError\<close> on a column that holds no string at all, which in this typed
  model is a column with at least one cell, all of them \<open>NaN\<close>. The methods reached
  through it leave a \<open>NaN\<close> cell as it is.
\<close>

definition str_accessor :: "string option list \<Rightarrow> error + string option list" where
  "str_accessor xs =
     (if xs \<noteq> [] \<and> list_all (\<lambda>x. x = None) xs then Inl AttributeError else Inr xs)"

text \<open>\<^verbatim>\<open>s.replace('@', '')\<close>: every occurrence goes, wherever it stands.\<close>

definition replace_at :: "string \<Rightarrow> string" where
  "replace_at s = filter (\<lambda>c. c \<noteq> CHR ''@'') s"

text \<open>
  Lines 114 and 115:
  \<^verbatim>\<open>df['Username'] = df['Username'].str.replace('@', '', regex=False)\<close>.
\<close>

definition clean_username :: "frame \<Rightarrow> error + frame" where
  "clean_username df =
     (if ''Username'' \<in> set (columns df)
      then (case str_accessor (map Username (rows df)) of
              Inl e \<Rightarrow> Inl e
            | Inr us \<Rightarrow>
                Inr (df\<lparr>rows := map (\<lambda>r. r\<lparr>Username := map_option replace_at (Username r)\<rparr>)
                                  (rows df)\<rparr>))
      else Inl (KeyError ''Username''))"

text \<open>\<^verbatim>\<open>s.strip()\<close>: the white space of ASCII goes from both ends.\<close>

definition isspace :: "char \<Rightarrow> bool" where
  "isspace c = (c \<in> set [CHR 0x09, CHR 0x0A, CHR 0x0B, CHR 0x0C, CHR 0x0D,
                         CHR 0x1C, CHR 0x1D, CHR 0x1E, CHR 0x1F, CHR 0x20])"

definition strip :: "string \<Rightarrow> string" where
  "strip s = rev (dropWhile isspace (rev (dropWhile isspace s)))"

text \<open>
  Lines 135 to 147, the participant list: the user name stripped, the full name filled
  from it where missing, the placeholder columns, and the rank by position.
\<close>

definition participant :: "nat \<times> csv_row \<Rightarrow> race_result" where
  "participant p =
     (case p of (i, r) \<Rightarrow>
        let u = map_option strip (csv_Username r)
        in \<lparr>Username = u,
            Full_Name = (case csv_Full_Name r of None \<Rightarrow> u | Some n \<Rightarrow> Some n),
            Race_Time = None, Speed = None, Boosts_Used = Some (Exact 0),
            Collisions = Some (Exact 0), Distance_Covered = None,
            Rank = Some (Exact (int i))\<rparr>)"

definition all_columns :: "string list" where
  "all_columns =
     [''Username'', ''Full Name'', ''Race Time (s)'', ''Speed (km/h)'', ''Boosts Used'',
      ''Collisions'', ''Distance Covered (km)'', ''Rank'']"

definition from_csv :: "csv_row list \<Rightarrow> error + frame" where
  "from_csv csv =
     (case str_accessor (map csv_Username csv) of
        Inl e \<Rightarrow> Inl e
      | Inr us \<Rightarrow> Inr \<lparr>columns = all_columns, rows = map participant (enumerate 1 csv)\<rparr>)"

text \<open>
  The third step, from line 98: a true \<^verbatim>\<open>race_data\<close> is normalised as a race file,
  anything else sends the function to the participant list. The second component is the
  \<^verbatim>\<open>data_source\<close> entry of the metadata stored for the page.
\<close>

definition normalise ::
  "document option \<Rightarrow> data_source \<Rightarrow> csv_row list option \<Rightarrow> error + (frame \<times> data_source)" where
  "normalise race_data data_source csv =
     (if truthy race_data
      then (case race_data of
              Some (Dict d) \<Rightarrow>
                (case map_of d ''results'' of
                   None \<Rightarrow> Inl (KeyError ''results'')
                 | Some v \<Rightarrow>
                     (case DataFrame v of
                        Inl e \<Rightarrow> Inl e
                      | Inr df \<Rightarrow>
                          (case clean_username (rename df) of
                             Inl e \<Rightarrow> Inl e
                           | Inr df' \<Rightarrow> Inr (df', data_source))))
            | _ \<Rightarrow> Inl TypeError)
      else (case csv of
              None \<Rightarrow> Inl ReadError
            | Some rs \<Rightarrow>
                (case from_csv rs of
                   Inl e \<Rightarrow> Inl e
                 | Inr df \<Rightarrow> Inr (df, CSV_participant_list))))"

text \<open>
  The body of the \<^verbatim>\<open>try\<close>, and the function: any exception is reported and the empty
  frame returned (lines 165 to 168).
\<close>

definition load_race_data_try :: "filesystem \<Rightarrow> error + (frame \<times> data_source)" where
  "load_race_data_try s =
     (case resolve s of
        Inl e \<Rightarrow> Inl e
      | Inr (race_data, data_source) \<Rightarrow> normalise race_data data_source (participants_csv s))"

definition load_race_data :: "filesystem \<Rightarrow> frame" where
  "load_race_data s =
     (case load_race_data_try s of
        Inl e \<Rightarrow> \<lparr>columns = [], rows = []\<rparr>
      | Inr (df, data_source) \<Rightarrow> df)"

text \<open>
  The diagnostics of \<^verbatim>\<open>load_race_data\<close>: what it writes to the sidebar with
  \<^verbatim>\<open>st.sidebar.write\<close>, in order, and the error it shows with \<^verbatim>\<open>st.error\<close> and
  repeats in the sidebar. A message written before an exception stays written.
\<close>

datatype message =
  Loading_from_realtime_results
  | No_race_completed_yet
  | Error_reading_latest_results
  | Found_race_files nat
  | Loading string
  | Loaded_race_data nat data_source
  | No_race_files_found
  | Error_loading_data error

fun method1_messages :: "file_state \<Rightarrow> message list" where
  "method1_messages Missing = []"
| "method1_messages Unreadable = [Error_reading_latest_results]"
| "method1_messages (Parsed (NonDict b)) = [Error_reading_latest_results]"
| "method1_messages (Parsed (Dict latest_data)) =
     (if map_of latest_data ''status'' = Some (JStr ''completed'')
         \<and> map_of latest_data ''results'' \<noteq> None
      then [Loading_from_realtime_results] else [No_race_completed_yet])"

definition method2_messages :: "filesystem \<Rightarrow> message list" where
  "method2_messages s =
     (if \<not> truthy (try_latest (latest_results s))
      then Found_race_files (length (race_files s)) #
           (case py_max getctime (race_files s) of
              Inl e \<Rightarrow> []
            | Inr latest_file \<Rightarrow> [Loading (path latest_file)])
      else [])"

definition diagnostics :: "filesystem \<Rightarrow> message list" where
  "diagnostics s =
     method1_messages (latest_results s) @ method2_messages s @
     (case load_race_data_try s of
        Inl e \<Rightarrow> [Error_loading_data e]
      | Inr (df, data_source) \<Rightarrow>
          if data_source = CSV_participant_list then [No_race_files_found]
          else [Loaded_race_data (length (rows df)) data_source])"

subsection \<open>The computations of \<^verbatim>\<open>main\<close>\<close>

text \<open>\<^verbatim>\<open>df[name]\<close>: the cells of a column, or \<^verbatim>\<open>KeyError\<close>.\<close>

definition column :: "frame \<Rightarrow> string \<Rightarrow> (race_result \<Rightarrow> 'a) \<Rightarrow> error + 'a list" where
  "column df name cell =
     (if name \<in> set (columns df) then Inr (map cell (rows df)) else Inl (KeyError name))"

text \<open>\<^verbatim>\<open>df.empty\<close>: no row or no column.\<close>

definition df_empty :: "frame \<Rightarrow> bool" where
  "df_empty df = (rows df = [] \<or> columns df = [])"

text \<open>Line 285: \<^verbatim>\<open>has_race_data = not df['Race Time (s)'].isna().all()\<close>.\<close>

definition has_race_data :: "frame \<Rightarrow> error + bool" where
  "has_race_data df =
     (case column df ''Race Time (s)'' Race_Time of
        Inl e \<Rightarrow> Inl e
      | Inr race_times \<Rightarrow> Inr (\<not> list_all (\<lambda>t. t = None) race_times))"

text \<open>
  \<^verbatim>\<open>create_ranking_chart\<close>: which of the two charts is drawn, and its bars (the user
  names, the heights, and the ranks written on the bars) for the first twenty rows.
\<close>

datatype chart_title = Race_Times | Race_Participants

record chart =
  title :: chart_title
  bar_x :: "string option list"
  bar_y :: "real option list"
  bar_text :: "int_cell option list"

definition create_ranking_chart :: "frame \<Rightarrow> bool \<Rightarrow> error + chart" where
  "create_ranking_chart df has_data =
     (let top_20 = df\<lparr>rows := take 20 (rows df)\<rparr> in
      case (if has_data
            then (case column df ''Race Time (s)'' Race_Time of
                    Inl e \<Rightarrow> Inl e
                  | Inr race_times \<Rightarrow> Inr (\<not> list_all (\<lambda>t. t = None) race_times))
            else Inr False) of
        Inl e \<Rightarrow> Inl e
      | Inr race_chart \<Rightarrow>
          (case column top_20 ''Username'' Username of
             Inl e \<Rightarrow> Inl e
           | Inr names \<Rightarrow>
               (case (if race_chart then column top_20 ''Race Time (s)'' Race_Time
                      else Inr (replicate (length (rows top_20)) (Some 1))) of
                  Inl e \<Rightarrow> Inl e
                | Inr heights \<Rightarrow>
                    (case column top_20 ''Rank'' Rank of
                       Inl e \<Rightarrow> Inl e
                     | Inr ranks \<Rightarrow>
                         Inr \<lparr>title = (if race_chart then Race_Times else Race_Participants),
                              bar_x = names, bar_y = heights, bar_text = ranks\<rparr>))))"

text \<open>
  Searching, \<^verbatim>\<open>df['Username'].str.contains(query, case=False, na=False)\<close>. pandas
  compiles the query as a regular expression with \<^verbatim>\<open>re.IGNORECASE\<close> (the default is
  \<^verbatim>\<open>regex=True\<close>) and keeps the rows where \<^verbatim>\<open>search\<close> finds a match; a missing
  user name counts as no match. The model writes out the expressions made of ordinary
  characters and of the dot, which stands for any character but the line feed. What
  Python's \<^verbatim>\<open>re\<close> does with any other expression (\<^verbatim>\<open>re.error\<close> from the
  compilation, or the compiled matcher) is the parameter \<open>re\<close> of the model. The user
  name column of the frame \<^verbatim>\<open>main\<close> works on was written by a \<^verbatim>\<open>.str\<close> method in
  \<^verbatim>\<open>load_race_data\<close>, so the accessor is available on it.
\<close>

definition re_special :: "char \<Rightarrow> bool" where
  "re_special c =
     (c \<in> set [CHR ''.'', CHR ''^'', CHR ''$'', CHR ''*'', CHR ''+'', CHR ''?'', CHR ''{'',
               CHR ''}'', CHR ''['', CHR '']'', CHR 0x5C, CHR ''|'', CHR ''('', CHR '')''])"

definition lower :: "char \<Rightarrow> char" where
  "lower c =
     (let n = (of_char c :: nat) in if 65 \<le> n \<and> n \<le> 90 then char_of (n + 32) else c)"

definition atom_match :: "char \<Rightarrow> char \<Rightarrow> bool" where
  "atom_match p c = (if p = CHR ''.'' then c \<noteq> CHR 0x0A else lower p = lower c)"

fun match_here :: "string \<Rightarrow> string \<Rightarrow> bool" where
  "match_here [] s = True"
| "match_here (p # ps) [] = False"
| "match_here (p # ps) (c # cs) = (atom_match p c \<and> match_here ps cs)"

fun re_search :: "string \<Rightarrow> string \<Rightarrow> bool" where
  "re_search pat [] = match_here pat []"
| "re_search pat (c # cs) = (match_here pat (c # cs) \<or> re_search pat cs)"

definition re_compile ::
  "(string \<Rightarrow> error + (string \<Rightarrow> bool)) \<Rightarrow> string \<Rightarrow> error + (string \<Rightarrow> bool)" where
  "re_compile re pat =
     (if list_all (\<lambda>c. c = CHR ''.'' \<or> \<not> re_special c) pat then Inr (re_search pat)
      else re pat)"

definition str_contains ::
  "(string \<Rightarrow> error + (string \<Rightarrow> bool)) \<Rightarrow> string \<Rightarrow> frame \<Rightarrow> error + frame" where
  "str_contains re query df =
     (case column df ''Username'' Username of
        Inl e \<Rightarrow> Inl e
      | Inr names \<Rightarrow>
          (case re_compile re query of
             Inl e \<Rightarrow> Inl e
           | Inr found \<Rightarrow>
               Inr (df\<lparr>rows := filter (\<lambda>r. case Username r of None \<Rightarrow> False | Some u \<Rightarrow> found u)
                                    (rows df)\<rparr>)))"

text \<open>
  The arithmetic of \<^verbatim>\<open>float64\<close>. A float is the real number it stands for; what the
  operations round to is not fixed here: the conversion of an int, the sum of a column
  and the three binary operations the code uses are parameters of the model.
  Comparisons of floats are exact.
\<close>

record float_ops =
  to_float :: "int \<Rightarrow> real"
  fsum :: "real list \<Rightarrow> real"
  fsub :: "real \<Rightarrow> real \<Rightarrow> real"
  fdiv :: "real \<Rightarrow> real \<Rightarrow> real"
  fmul :: "real \<Rightarrow> real \<Rightarrow> real"


text \<open>
  Reading columns one after the other, as the cards and tables of the page do with
  \<^verbatim>\<open>user[name]\<close> and \<^verbatim>\<open>df[[...]]\<close>: the first one that is missing raises
  \<^verbatim>\<open>KeyError\<close>.
\<close>

definition read_columns :: "frame \<Rightarrow> string list \<Rightarrow> error + unit" where
  "read_columns df names =
     (case filter (\<lambda>c. c \<notin> set (columns df)) names of
        [] \<Rightarrow> Inr ()
      | c # cs \<Rightarrow> Inl (KeyError c))"

text \<open>
  \<^verbatim>\<open>Series.mean()\<close> skips the missing values and divides the sum of the others by their
  number; with none left the mean is \<open>NaN\<close>.
\<close>

definition mean :: "float_ops \<Rightarrow> real option list \<Rightarrow> real option" where
  "mean fl xs =
     (let present = concat (map (\<lambda>x. case x of None \<Rightarrow> [] | Some v \<Rightarrow> [v]) xs)
      in if present = [] then None
         else Some (fdiv fl (fsum fl present) (to_float fl (int (length present)))))"

text \<open>
  Lines 331 to 335, for a row \<open>user\<close> found by the search: nothing for a frame of one
  row; otherwise \<open>time_diff\<close> (\<open>NaN\<close> when the row has no time) and \<open>faster_than\<close>.
  A comparison with \<open>NaN\<close> is false. The race time column is there: line 285 has read
  it.
\<close>

definition performance_comparison ::
  "float_ops \<Rightarrow> frame \<Rightarrow> race_result \<Rightarrow> (real option \<times> real) option" where
  "performance_comparison fl df user =
     (if length (rows df) > 1
      then let race_times = map Race_Time (rows df);
               avg_time = mean fl race_times;
               time_diff = (case (Race_Time user, avg_time) of
                              (Some t, Some a) \<Rightarrow> Some (fsub fl t a)
                            | _ \<Rightarrow> None);
               slower = filter (\<lambda>x. case (x, Race_Time user) of
                                       (Some y, Some t) \<Rightarrow> t < y
                                     | _ \<Rightarrow> False) race_times;
               faster_than = fmul fl (fdiv fl (to_float fl (int (length slower)))
                                              (to_float fl (int (length (rows df)))))
                                     (to_float fl 100)
           in Some (time_diff, faster_than)
      else None)"

text \<open>
  Lines 280 to 357 of \<^verbatim>\<open>main\<close>: the cards drawn for the query of the search box, one
  per row found, each with its comparison if it has one. An empty frame ends
  \<^verbatim>\<open>main\<close> at line 282; an empty query draws nothing. With race data a card reads
  the columns of lines 305 to 320 before the comparison; without race data it reads those
  of line 355 and has no comparison.
\<close>

definition search_cards ::
  "(string \<Rightarrow> error + (string \<Rightarrow> bool)) \<Rightarrow> float_ops \<Rightarrow> string \<Rightarrow> frame \<Rightarrow>
     error + (race_result \<times> (real option \<times> real) option) list" where
  "search_cards re fl search_username df =
     (if df_empty df then Inr []
      else case has_race_data df of
        Inl e \<Rightarrow> Inl e
      | Inr has_data \<Rightarrow>
          if search_username = [] then Inr []
          else case str_contains re search_username df of
            Inl e \<Rightarrow> Inl e
          | Inr search_results \<Rightarrow>
              if rows search_results = [] then Inr []
              else if has_data
              then (case read_columns df [''Rank'', ''Username'', ''Full Name'',
                       ''Race Time (s)'', ''Speed (km/h)'', ''Boosts Used'', ''Collisions''] of
                      Inl e \<Rightarrow> Inl e
                    | Inr u \<Rightarrow>
                        Inr (map (\<lambda>user. (user, performance_comparison fl df user))
                               (rows search_results)))
              else (case read_columns df [''Username'', ''Full Name'', ''Rank''] of
                      Inl e \<Rightarrow> Inl e
                    | Inr u \<Rightarrow> Inr (map (\<lambda>user. (user, None)) (rows search_results))))"

text \<open>
  Lines 548 to 576, the table of participants, drawn only without race data: the frame
  filtered by the query unless the query is empty, cut to the first \<open>show_top\<close> rows
  unless \<open>show_top\<close> is \<^verbatim>\<open>"All"\<close> (\<open>None\<close>), and of these the user name and the full
  name. By then the page has read the columns of the chart and of the preview (lines 437
  and 498). The result is \<open>None\<close> where the table is not drawn.
\<close>

definition participant_table ::
  "(string \<Rightarrow> error + (string \<Rightarrow> bool)) \<Rightarrow> string \<Rightarrow> nat option \<Rightarrow> frame \<Rightarrow>
     error + (string option \<times> string option) list option" where
  "participant_table re search_term show_top df =
     (if df_empty df then Inr None
      else case has_race_data df of
        Inl e \<Rightarrow> Inl e
      | Inr has_data \<Rightarrow>
          if has_data then Inr None
          else case read_columns df [''Username'', ''Rank'', ''Full Name''] of
            Inl e \<Rightarrow> Inl e
          | Inr u \<Rightarrow>
              (case (if search_term \<noteq> [] then str_contains re search_term df else Inr df) of
                 Inl e \<Rightarrow> Inl e
               | Inr filtered_df \<Rightarrow>
                   Inr (Some (map (\<lambda>r. (Username r, Full_Name r))
                                (case show_top of
                                   None \<Rightarrow> rows filtered_df
                                 | Some n \<Rightarrow> take n (rows filtered_df))))))"









subsection \<open>Example inputs\<close>

text \<open>The record of the specification's round-trip example.\<close>

definition pilot1 :: raw_result where
  "pilot1 =
     \<lparr>username = Some ''@pilot1'', fullName = None, raceTime = Some 12.5,
      averageSpeed = Some 40, boostsUsed = Some 2, collisions = Some 0,
      distanceCovered = Some 1.2, rank = Some 1\<rparr>"

definition completed_doc :: "(string \<times> jvalue) list" where
  "completed_doc = [(''status'', JStr ''completed''), (''results'', JRecords [pilot1])]"

definition running_doc :: "(string \<times> jvalue) list" where
  "running_doc = [(''status'', JStr ''running''), (''results'', JRecords [pilot1])]"

definition no_results_doc :: "(string \<times> jvalue) list" where
  "no_results_doc = [(''status'', JStr ''completed'')]"

definition empty_results_doc :: "(string \<times> jvalue) list" where
  "empty_results_doc = [(''status'', JStr ''completed''), (''results'', JRecords [])]"

definition backup_doc :: "(string \<times> jvalue) list" where
  "backup_doc = [(''raceId'', JStr ''r1''), (''results'', JRecords [pilot1])]"

definition file_A :: race_file where
  "file_A =
     \<lparr>path = ''rocket_race_results_A.json'', getctime = 1, file_content = Parsed (Dict backup_doc)\<rparr>"

definition file_B :: race_file where
  "file_B =
     \<lparr>path = ''rocket_race_results_B.json'', getctime = 2, file_content = Parsed (Dict backup_doc)\<rparr>"

text \<open>Two backup files with one creation time.\<close>

definition tie_a :: race_file where
  "tie_a =
     \<lparr>path = ''rocket_race_results_a.json'', getctime = 5, file_content = Parsed (Dict backup_doc)\<rparr>"

definition tie_b :: race_file where
  "tie_b =
     \<lparr>path = ''rocket_race_results_b.json'', getctime = 5, file_content = Parsed (Dict backup_doc)\<rparr>"

text \<open>Records that lack some of the numeric fields.\<close>

definition no_speed :: raw_result where
  "no_speed =
     \<lparr>username = Some ''@pilot2'', fullName = None, raceTime = Some 20,
      averageSpeed = None, boostsUsed = Some 1, collisions = Some 3,
      distanceCovered = None, rank = Some 2\<rparr>"

definition no_time :: raw_result where
  "no_time =
     \<lparr>username = Some ''@pilot3'', fullName = None, raceTime = None,
      averageSpeed = None, boostsUsed = None, collisions = None,
      distanceCovered = None, rank = Some 3\<rparr>"

definition sigil_doc :: "(string \<times> jvalue) list" where
  "sigil_doc =
     [(''status'', JStr ''completed''),
      (''results'', JRecords [pilot1\<lparr>username := Some ''@a@b ''\<rparr>])]"

definition partial_doc :: "(string \<times> jvalue) list" where
  "partial_doc = [(''status'', JStr ''completed''), (''results'', JRecords [pilot1, no_speed])]"

definition file_partial :: race_file where
  "file_partial =
     \<lparr>path = ''rocket_race_results_C.json'', getctime = 3,
      file_content = Parsed (Dict [(''results'', JRecords [pilot1, no_time])])\<rparr>"

definition ann :: csv_row where
  "ann = \<lparr>csv_Username = Some '' ann '', csv_Full_Name = None\<rparr>"



text \<open>The participant list with the one participant \<open>pilot1\<close>, and no race file.\<close>

definition pending_pilot :: filesystem where
  "pending_pilot =
     \<lparr>latest_results = Missing, race_files = [],
      participants_csv = Some [\<lparr>csv_Username = Some ''pilot1'', csv_Full_Name = None\<rparr>]\<rparr>"


text \<open>Frames for the computations of \<^verbatim>\<open>main\<close>.\<close>

definition racer :: "string \<Rightarrow> real option \<Rightarrow> int \<Rightarrow> int \<Rightarrow> race_result" where
  "racer u t b k =
     \<lparr>Username = Some u, Full_Name = Some u, Race_Time = t, Speed = map_option (\<lambda>x. 40) t,
      Boosts_Used = Some (Exact b), Collisions = Some (Exact 0),
      Distance_Covered = map_option (\<lambda>x. 1.2) t, Rank = Some (Exact k)\<rparr>"



definition single_frame :: frame where
  "single_frame = \<lparr>columns = all_columns, rows = [racer ''pilot1'' (Some 12.5) 2 1]\<rparr>"

definition one_time_frame :: frame where
  "one_time_frame =
     \<lparr>columns = all_columns,
      rows = [racer ''a'' None 0 1, racer ''b'' (Some 11) 7 2, racer ''c'' None 0 3]\<rparr>"

definition pending_frame :: frame where
  "pending_frame =
     \<lparr>columns = all_columns, rows = [racer ''a'' None 0 1, racer ''b'' None 0 2]\<rparr>"

section \<open>Source resolution\<close>

lemma try_latest_truthy: "try_latest f = Some doc \<Longrightarrow> truthy (Some doc)"
  by (induction f rule: try_latest.induct) (auto split: if_splits)

lemma try_latest_Some_iff:
  "try_latest f = Some doc \<longleftrightarrow>
     (\<exists>d. f = Parsed (Dict d) \<and> doc = Dict d \<and> map_of d ''status'' = Some (JStr ''completed'')
          \<and> map_of d ''results'' \<noteq> None)"
  by (induction f rule: try_latest.induct) auto

lemma read_backup_source: "read_backup fs = Inr (doc, src) \<Longrightarrow> \<exists>p. src = Backup_File p"
  by (auto simp: read_backup_def split: sum.splits file_state.splits)

lemma resolve_fallthrough:
  "try_latest (latest_results s) = None \<Longrightarrow>
   resolve s = (if race_files s \<noteq> [] then read_backup (race_files s) else Inr (None, Unknown))"
  by (simp add: resolve_def)

lemma resolve_live:
  "try_latest (latest_results s) = Some doc \<Longrightarrow> resolve s = Inr (Some doc, Latest_Results)"
  using try_latest_truthy [of "latest_results s" doc] by (simp add: resolve_def)

text \<open>
  Claim C1, as amended. A live-results file that parses to a dict with status
  \<^verbatim>\<open>completed\<close> and with a \<^verbatim>\<open>results\<close> key is the resolved source, whatever backup
  files and participant list exist and whatever their creation times are. When the file
  parses but its status is not \<^verbatim>\<open>completed\<close> (a dict with another status or none, or
  a value that is no dict), method 1 raises nothing and leaves no data, and the result is
  that of method 2: the latest backup file if there is one, and otherwise no race data
  (the participant list is then read).
\<close>

theorem live_results_precedence:
  "(latest_results s = Parsed (Dict d) \<and> map_of d ''status'' = Some (JStr ''completed'')
      \<and> map_of d ''results'' \<noteq> None
    \<longrightarrow> resolve s = Inr (Some (Dict d), Latest_Results))
   \<and> (latest_results s = Parsed doc
       \<and> (\<forall>d. doc = Dict d \<longrightarrow> map_of d ''status'' \<noteq> Some (JStr ''completed''))
    \<longrightarrow> try_latest (latest_results s) = None
        \<and> resolve s = (if race_files s \<noteq> [] then read_backup (race_files s)
                       else Inr (None, Unknown)))"
proof (intro conjI impI)
  assume "latest_results s = Parsed (Dict d) \<and> map_of d ''status'' = Some (JStr ''completed'')
      \<and> map_of d ''results'' \<noteq> None"
  then show "resolve s = Inr (Some (Dict d), Latest_Results)"
    by (simp add: resolve_live)
next
  assume a: "latest_results s = Parsed doc
       \<and> (\<forall>d. doc = Dict d \<longrightarrow> map_of d ''status'' \<noteq> Some (JStr ''completed''))"
  then show n: "try_latest (latest_results s) = None"
    by (cases doc) simp_all
  then show "resolve s = (if race_files s \<noteq> [] then read_backup (race_files s)
                       else Inr (None, Unknown))"
    by (rule resolve_fallthrough)
qed

theorem live_results_precedence_witness:
  "resolve \<lparr>latest_results = Parsed (Dict completed_doc), race_files = [file_A, file_B],
            participants_csv = Some []\<rparr>
     = Inr (Some (Dict completed_doc), Latest_Results)
   \<and> resolve \<lparr>latest_results = Parsed (Dict running_doc), race_files = [file_A, file_B],
              participants_csv = Some []\<rparr>
     = Inr (Some (Dict backup_doc), Backup_File ''rocket_race_results_B.json'')"
  using
    live_results_precedence [of "\<lparr>latest_results = Parsed (Dict completed_doc),
      race_files = [file_A, file_B], participants_csv = Some []\<rparr>" completed_doc]
    live_results_precedence [where s = "\<lparr>latest_results = Parsed (Dict running_doc),
      race_files = [file_A, file_B], participants_csv = Some []\<rparr>" and doc = "Dict running_doc"]
  by (simp add: completed_doc_def running_doc_def read_backup_def py_max_def file_A_def
      file_B_def)

text \<open>
  Claim C1 as stated fails: a live-results file that parses and has status
  \<^verbatim>\<open>completed\<close> but no \<^verbatim>\<open>results\<close> key is passed over, and the backup file is the
  resolved source.
\<close>

theorem live_results_precedence_counterexample:
  "resolve \<lparr>latest_results = Parsed (Dict no_results_doc), race_files = [file_A],
            participants_csv = Some []\<rparr>
     = Inr (Some (Dict backup_doc), Backup_File ''rocket_race_results_A.json'')"
  by (simp add: resolve_def no_results_doc_def read_backup_def py_max_def file_A_def)

text \<open>
  Claim C2, as amended. The live-results file is the resolved source exactly when it
  parses to a dict, its status equals \<^verbatim>\<open>completed\<close> and it has a \<^verbatim>\<open>results\<close> key; the
  results need not be non-empty. With status \<^verbatim>\<open>completed\<close> and an empty results array
  the file is still the resolved source, no other tier is consulted, and
  \<^verbatim>\<open>load_race_data\<close> returns the empty frame.
\<close>

theorem live_results_eligibility:
  "((\<exists>doc. resolve s = Inr (doc, Latest_Results)) \<longleftrightarrow>
      (\<exists>d. latest_results s = Parsed (Dict d) \<and> map_of d ''status'' = Some (JStr ''completed'')
           \<and> map_of d ''results'' \<noteq> None))
   \<and> (latest_results s = Parsed (Dict d) \<and> map_of d ''status'' = Some (JStr ''completed'')
        \<and> map_of d ''results'' = Some (JRecords [])
      \<longrightarrow> resolve s = Inr (Some (Dict d), Latest_Results)
          \<and> load_race_data s = \<lparr>columns = [], rows = []\<rparr>)"
proof (intro conjI impI)
  show "(\<exists>doc. resolve s = Inr (doc, Latest_Results)) \<longleftrightarrow>
      (\<exists>d. latest_results s = Parsed (Dict d) \<and> map_of d ''status'' = Some (JStr ''completed'')
           \<and> map_of d ''results'' \<noteq> None)"
  proof (cases "try_latest (latest_results s)")
    case None
    then have "\<not> (\<exists>doc. resolve s = Inr (doc, Latest_Results))"
      using read_backup_source [of "race_files s"] by (auto simp: resolve_fallthrough)
    moreover from None have "\<not> (\<exists>d. latest_results s = Parsed (Dict d)
         \<and> map_of d ''status'' = Some (JStr ''completed'') \<and> map_of d ''results'' \<noteq> None)"
      by (auto split: if_splits)
    ultimately show ?thesis by simp
  next
    case (Some doc)
    then show ?thesis
      using resolve_live [OF Some] by (auto simp: try_latest_Some_iff)
  qed
next
  assume a: "latest_results s = Parsed (Dict d) \<and> map_of d ''status'' = Some (JStr ''completed'')
        \<and> map_of d ''results'' = Some (JRecords [])"
  then show r: "resolve s = Inr (Some (Dict d), Latest_Results)"
    by (simp add: resolve_live)
  from a have "d \<noteq> []" by auto
  with a r show "load_race_data s = \<lparr>columns = [], rows = []\<rparr>"
    by (simp add: load_race_data_def load_race_data_try_def normalise_def rename_def
        clean_username_def)
qed

theorem live_results_eligibility_witness:
  "(\<exists>doc. resolve \<lparr>latest_results = Parsed (Dict completed_doc), race_files = [file_A],
                   participants_csv = Some []\<rparr> = Inr (doc, Latest_Results))
   \<and> load_race_data \<lparr>latest_results = Parsed (Dict empty_results_doc), race_files = [file_A],
                     participants_csv = Some []\<rparr> = \<lparr>columns = [], rows = []\<rparr>"
  using
    live_results_eligibility [of "\<lparr>latest_results = Parsed (Dict completed_doc),
      race_files = [file_A], participants_csv = Some []\<rparr>" completed_doc]
    live_results_eligibility [of "\<lparr>latest_results = Parsed (Dict empty_results_doc),
      race_files = [file_A], participants_csv = Some []\<rparr>" empty_results_doc]
  by (simp add: completed_doc_def empty_results_doc_def)

text \<open>
  Claim C2 as stated fails: a live-results file with status \<^verbatim>\<open>completed\<close> and an empty
  results array is the resolved source although a backup file exists; resolution does
  not fall through, and the load ends with the empty frame.
\<close>

theorem live_results_eligibility_counterexample:
  "resolve \<lparr>latest_results = Parsed (Dict empty_results_doc), race_files = [file_A],
            participants_csv = Some []\<rparr>
     = Inr (Some (Dict empty_results_doc), Latest_Results)
   \<and> load_race_data \<lparr>latest_results = Parsed (Dict empty_results_doc), race_files = [file_A],
                     participants_csv = Some []\<rparr> = \<lparr>columns = [], rows = []\<rparr>"
  by (simp add: resolve_def load_race_data_def load_race_data_try_def normalise_def
      rename_def clean_username_def empty_results_doc_def)

lemma max_from_split:
  "\<exists>pre post. b # xs = pre @ max_from key b xs # post
      \<and> (\<forall>g\<in>set pre. key g < key (max_from key b xs))
      \<and> (\<forall>g\<in>set post. key g \<le> key (max_from key b xs))"
proof (induction xs arbitrary: b)
  case Nil
  have "[b] = [] @ max_from key b [] # [] \<and> (\<forall>g\<in>set []. key g < key (max_from key b []))
      \<and> (\<forall>g\<in>set []. key g \<le> key (max_from key b []))"
    by simp
  then show ?case by blast
next
  case (Cons x xs)
  show ?case
  proof (cases "key b < key x")
    case True
    let ?f = "max_from key x xs"
    from True have eq: "max_from key b (x # xs) = ?f" by simp
    from Cons.IH [of x] obtain pre post where
      s: "x # xs = pre @ ?f # post" and
      l: "\<forall>g\<in>set pre. key g < key ?f" and r: "\<forall>g\<in>set post. key g \<le> key ?f"
      by blast
    have "key x \<le> key ?f"
    proof (cases pre)
      case Nil
      with s have "key x = key ?f" by (metis append_Nil list.inject)
      then show ?thesis by simp
    next
      case (Cons p ps)
      with s l show ?thesis by auto
    qed
    with True have "key b < key ?f" by simp
    with l have l': "\<forall>g\<in>set (b # pre). key g < key ?f" by simp
    from s have "b # x # xs = (b # pre) @ ?f # post" by simp
    with l' r show ?thesis unfolding eq by blast
  next
    case False
    let ?f = "max_from key b xs"
    from False have eq: "max_from key b (x # xs) = ?f" by simp
    from Cons.IH [of b] obtain pre post where
      s: "b # xs = pre @ ?f # post" and
      l: "\<forall>g\<in>set pre. key g < key ?f" and r: "\<forall>g\<in>set post. key g \<le> key ?f"
      by blast
    show ?thesis
    proof (cases pre)
      case Nil
      with s have "b # xs = ?f # post" by (metis append_Nil)
      then have b: "b = ?f" and xs: "xs = post" by (metis list.inject)+
      from b False have "key x \<le> key ?f" by simp
      with r have r': "\<forall>g\<in>set (x # post). key g \<le> key ?f" by simp
      have l': "\<forall>g\<in>set []. key g < key ?f" by simp
      from b xs have "b # x # xs = [] @ ?f # (x # post)" by simp
      with l' r' show ?thesis unfolding eq by blast
    next
      case (Cons p ps)
      with s have "b # xs = p # (ps @ ?f # post)" by (metis append_Cons)
      then have p: "p = b" and xs: "xs = ps @ ?f # post" by (metis list.inject)+
      from p l Cons have "key b < key ?f" by simp
      with False have "key x < key ?f" by simp
      with l Cons p have l': "\<forall>g\<in>set (b # x # ps). key g < key ?f" by simp
      from xs have "b # x # xs = (b # x # ps) @ ?f # post" by simp
      with l' r show ?thesis unfolding eq by blast
    qed
  qed
qed

text \<open>
  Claim C5, as amended. From a non-empty list of backup files the resolver reads one
  file whose creation time no other file exceeds; among several files with that
  greatest creation time it is the one that comes first in the list \<^verbatim>\<open>glob.glob\<close>
  returned (every file before it in that list is strictly older). The paths play no
  part in the choice. For two files of which \<open>b\<close> is the newer, \<open>b\<close> is chosen in either
  order of the list.
\<close>

theorem latest_backup_file:
  "(fs \<noteq> [] \<longrightarrow>
      (\<exists>f pre post. py_max getctime fs = Inr f \<and> fs = pre @ f # post
          \<and> (\<forall>g\<in>set pre. getctime g < getctime f)
          \<and> (\<forall>g\<in>set post. getctime g \<le> getctime f)
          \<and> read_backup fs = (case file_content f of
                                 Parsed race_data \<Rightarrow> Inr (Some race_data, Backup_File (path f))
                               | _ \<Rightarrow> Inl ReadError)))
   \<and> (getctime a < getctime b \<longrightarrow>
        py_max getctime [a, b] = Inr b \<and> py_max getctime [b, a] = Inr b)"
proof (intro conjI impI)
  assume "fs \<noteq> []"
  then obtain x xs where fs: "fs = x # xs" by (cases fs) auto
  let ?f = "max_from getctime x xs"
  from fs have pm: "py_max getctime fs = Inr ?f"
    by (simp add: py_max_def)
  then have rb: "read_backup fs = (case file_content ?f of
                                 Parsed race_data \<Rightarrow> Inr (Some race_data, Backup_File (path ?f))
                               | _ \<Rightarrow> Inl ReadError)"
    by (simp add: read_backup_def)
  from max_from_split [of x xs getctime] fs obtain pre post where
    "fs = pre @ ?f # post"
    "\<forall>g\<in>set pre. getctime g < getctime ?f"
    "\<forall>g\<in>set post. getctime g \<le> getctime ?f"
    by blast
  with pm rb have "py_max getctime fs = Inr ?f \<and> fs = pre @ ?f # post
          \<and> (\<forall>g\<in>set pre. getctime g < getctime ?f)
          \<and> (\<forall>g\<in>set post. getctime g \<le> getctime ?f)
          \<and> read_backup fs = (case file_content ?f of
                                 Parsed race_data \<Rightarrow> Inr (Some race_data, Backup_File (path ?f))
                               | _ \<Rightarrow> Inl ReadError)"
    by blast
  then show "\<exists>f pre post. py_max getctime fs = Inr f \<and> fs = pre @ f # post
          \<and> (\<forall>g\<in>set pre. getctime g < getctime f)
          \<and> (\<forall>g\<in>set post. getctime g \<le> getctime f)
          \<and> read_backup fs = (case file_content f of
                                 Parsed race_data \<Rightarrow> Inr (Some race_data, Backup_File (path f))
                               | _ \<Rightarrow> Inl ReadError)"
    by blast
next
  assume "getctime a < getctime b"
  then show "py_max getctime [a, b] = Inr b" by (simp add: py_max_def)
next
  assume "getctime a < getctime b"
  then show "py_max getctime [b, a] = Inr b" by (simp add: py_max_def)
qed

theorem latest_backup_file_witness:
  "py_max getctime [file_A, file_B] = Inr file_B
   \<and> py_max getctime [file_B, file_A] = Inr file_B
   \<and> read_backup [file_A, file_B]
       = Inr (Some (Dict backup_doc), Backup_File ''rocket_race_results_B.json'')"
  using latest_backup_file [of "[file_A, file_B]" file_A file_B]
  by (simp add: py_max_def read_backup_def file_A_def file_B_def)

text \<open>
  Claim C5 as stated fails in its tie-break: of two backup files with the same creation
  time the resolver takes the one listed first, so the same two files give either
  choice and no order on the paths decides it.
\<close>

theorem latest_backup_file_counterexample:
  "py_max getctime [tie_a, tie_b] = Inr tie_a \<and> py_max getctime [tie_b, tie_a] = Inr tie_b"
  by (simp add: py_max_def tie_a_def tie_b_def)

section \<open>Normalisation\<close>

lemma set_unique: "set (unique xs) = set xs"
  by (induction xs) auto

lemma replace_at_eq: "replace_at = filter (\<lambda>c. c \<noteq> CHR ''@'')"
  by (rule ext) (simp add: replace_at_def)

lemma Username_column:
  assumes "r \<in> set rs" and "username r \<noteq> None"
  shows "''Username'' \<in> set (columns (rename \<lparr>columns = unique (concat (map keys_of rs)),
                                                rows = map (to_row rs) rs\<rparr>))"
proof -
  from assms have "''username'' \<in> set (keys_of r)" by (simp add: keys_of_def)
  with assms have "''username'' \<in> set (unique (concat (map keys_of rs)))"
    by (auto simp: set_unique)
  then have "(case map_of column_names ''username'' of None \<Rightarrow> ''username'' | Some c \<Rightarrow> c)
      \<in> set (columns (rename \<lparr>columns = unique (concat (map keys_of rs)),
                            rows = map (to_row rs) rs\<rparr>))"
    unfolding rename_def by (simp only: frame.simps set_map) (rule imageI)
  then show ?thesis by (simp add: column_names_def)
qed

lemma normalise_race:
  assumes res: "map_of d ''results'' = Some (JRecords rs)"
    and u: "r \<in> set rs" "username r \<noteq> None"
  shows "\<exists>cs. ''Username'' \<in> set cs \<and> normalise (Some (Dict d)) src csv =
     Inr (\<lparr>columns = cs,
           rows = map (\<lambda>r. \<lparr>Username = map_option replace_at (username r),
                            Full_Name = fullName r, Race_Time = raceTime r,
                            Speed = averageSpeed r, Boosts_Used = int_column boostsUsed rs r,
                            Collisions = int_column collisions rs r,
                            Distance_Covered = distanceCovered r, Rank = int_column rank rs r\<rparr>) rs\<rparr>, src)"
proof -
  let ?df = "rename \<lparr>columns = unique (concat (map keys_of rs)), rows = map (to_row rs) rs\<rparr>"
  from res have d: "d \<noteq> []" by auto
  have c: "''Username'' \<in> set (columns ?df)" using u by (rule Username_column)
  have rows: "rows ?df = map (to_row rs) rs" by (simp add: rename_def)
  from u have "\<not> list_all (\<lambda>x. x = None) (map Username (rows ?df))"
    by (auto simp: rows list_all_iff to_row_def int_column_def)
  then have "str_accessor (map Username (rows ?df)) = Inr (map Username (rows ?df))"
    by (simp add: str_accessor_def)
  with c have "clean_username ?df =
      Inr (?df\<lparr>rows := map (\<lambda>r. r\<lparr>Username := map_option replace_at (Username r)\<rparr>) (rows ?df)\<rparr>)"
    by (simp add: clean_username_def)
  with d res have "normalise (Some (Dict d)) src csv =
      Inr (?df\<lparr>rows := map (\<lambda>r. r\<lparr>Username := map_option replace_at (Username r)\<rparr>) (rows ?df)\<rparr>, src)"
    by (simp add: normalise_def)
  then have "normalise (Some (Dict d)) src csv =
     Inr (\<lparr>columns = columns ?df,
           rows = map (\<lambda>r. \<lparr>Username = map_option replace_at (username r),
                            Full_Name = fullName r, Race_Time = raceTime r,
                            Speed = averageSpeed r, Boosts_Used = int_column boostsUsed rs r,
                            Collisions = int_column collisions rs r,
                            Distance_Covered = distanceCovered r, Rank = int_column rank rs r\<rparr>) rs\<rparr>, src)"
    by (simp add: rows to_row_def int_column_def rename_def)
  with c show ?thesis by blast
qed

lemma Username_column_inv:
  assumes "''Username'' \<in> set (columns (rename \<lparr>columns = unique (concat (map keys_of rs)),
                                                  rows = rws\<rparr>))"
  shows "\<exists>r\<in>set rs. username r \<noteq> None"
proof -
  from assms obtain k r where r: "r \<in> set rs" and k: "k \<in> set (keys_of r)"
    and n: "(case map_of column_names k of None \<Rightarrow> k | Some c \<Rightarrow> c) = ''Username''"
    by (auto simp: rename_def set_unique)
  from k n have "username r \<noteq> None"
    by (auto simp: keys_of_def column_names_def split: if_splits)
  with r show ?thesis by blast
qed

lemma normalise_race_inv:
  assumes t: "truthy race_data" and n: "normalise race_data src csv = Inr (df, src')"
  shows "\<exists>d rs. race_data = Some (Dict d) \<and> map_of d ''results'' = Some (JRecords rs)
            \<and> (\<exists>r\<in>set rs. username r \<noteq> None)"
proof -
  from t n obtain d v df0 where d: "race_data = Some (Dict d)" and v: "map_of d ''results'' = Some v"
    and f: "DataFrame v = Inr df0" and c: "clean_username (rename df0) = Inr df"
    by (auto simp: normalise_def split: option.splits document.splits sum.splits)
  from c have u: "''Username'' \<in> set (columns (rename df0))"
    by (auto simp: clean_username_def split: if_splits)
  from f u obtain rs where rs: "v = JRecords rs"
    by (cases v) (auto simp: rename_def)
  with f u have "''Username'' \<in> set (columns (rename \<lparr>columns = unique (concat (map keys_of rs)),
                                                  rows = map (to_row rs) rs\<rparr>))"
    by auto
  then have "\<exists>r\<in>set rs. username r \<noteq> None"
    by (rule Username_column_inv)
  with d v rs show ?thesis by blast
qed

text \<open>
  Claim C3, as amended. For a race file whose results are records of which at least one
  has a user name, normalisation returns one row per record, in order: the user name
  with every \<open>@\<close> removed, wherever it stands, and nothing else changed (white space
  is not trimmed in the race tiers); the full name, race time, speed and distance exactly
  as in the record; and boosts, collisions and rank exactly as in the record when every
  record of the file has that field, but as the float of the same number when some
  record lacks it. In particular the file with the single record of user name
  \<open>@pilot1\<close>, race time 12.5, average speed 40, 2 boosts, 0 collisions, distance 1.2
  and rank 1 gives the row with user name \<open>pilot1\<close> and all other fields unchanged.
\<close>

theorem username_normalization:
  "(map_of d ''results'' = Some (JRecords rs) \<and> (\<exists>r\<in>set rs. username r \<noteq> None) \<longrightarrow>
      (\<exists>df. normalise (Some (Dict d)) src csv = Inr (df, src)
          \<and> map Username (rows df)
              = map (\<lambda>r. map_option (filter (\<lambda>c. c \<noteq> CHR ''@'')) (username r)) rs
          \<and> map Full_Name (rows df) = map fullName rs
          \<and> map Race_Time (rows df) = map raceTime rs
          \<and> map Speed (rows df) = map averageSpeed rs
          \<and> map Boosts_Used (rows df) = map (int_column boostsUsed rs) rs
          \<and> map Collisions (rows df) = map (int_column collisions rs) rs
          \<and> map Distance_Covered (rows df) = map distanceCovered rs
          \<and> map Rank (rows df) = map (int_column rank rs) rs))
   \<and> rows (load_race_data \<lparr>latest_results = Parsed (Dict completed_doc), race_files = fs,
                            participants_csv = csv\<rparr>)
       = [\<lparr>Username = Some ''pilot1'', Full_Name = None, Race_Time = Some 12.5,
           Speed = Some 40, Boosts_Used = Some (Exact 2), Collisions = Some (Exact 0),
           Distance_Covered = Some 1.2, Rank = Some (Exact 1)\<rparr>]"
proof (intro conjI impI)
  assume a: "map_of d ''results'' = Some (JRecords rs) \<and> (\<exists>r\<in>set rs. username r \<noteq> None)"
  then obtain r where "r \<in> set rs" "username r \<noteq> None" by blast
  with a obtain cs where "normalise (Some (Dict d)) src csv =
     Inr (\<lparr>columns = cs,
           rows = map (\<lambda>r. \<lparr>Username = map_option replace_at (username r),
                            Full_Name = fullName r, Race_Time = raceTime r,
                            Speed = averageSpeed r, Boosts_Used = int_column boostsUsed rs r,
                            Collisions = int_column collisions rs r,
                            Distance_Covered = distanceCovered r, Rank = int_column rank rs r\<rparr>) rs\<rparr>, src)"
    using normalise_race [of d rs r src csv] by blast
  then show "\<exists>df. normalise (Some (Dict d)) src csv = Inr (df, src)
          \<and> map Username (rows df)
              = map (\<lambda>r. map_option (filter (\<lambda>c. c \<noteq> CHR ''@'')) (username r)) rs
          \<and> map Full_Name (rows df) = map fullName rs
          \<and> map Race_Time (rows df) = map raceTime rs
          \<and> map Speed (rows df) = map averageSpeed rs
          \<and> map Boosts_Used (rows df) = map (int_column boostsUsed rs) rs
          \<and> map Collisions (rows df) = map (int_column collisions rs) rs
          \<and> map Distance_Covered (rows df) = map distanceCovered rs
          \<and> map Rank (rows df) = map (int_column rank rs) rs"
    by (simp add: replace_at_eq comp_def)
next
  let ?s = "\<lparr>latest_results = Parsed (Dict completed_doc), race_files = fs,
             participants_csv = csv\<rparr>"
  have "resolve ?s = Inr (Some (Dict completed_doc), Latest_Results)"
    by (rule resolve_live) (simp add: completed_doc_def)
  moreover have "pilot1 \<in> set [pilot1]" "username pilot1 \<noteq> None"
    by (simp_all add: pilot1_def)
  then obtain cs where "normalise (Some (Dict completed_doc)) Latest_Results csv =
     Inr (\<lparr>columns = cs,
           rows = map (\<lambda>r. \<lparr>Username = map_option replace_at (username r),
                            Full_Name = fullName r, Race_Time = raceTime r,
                            Speed = averageSpeed r, Boosts_Used = int_column boostsUsed [pilot1] r,
                            Collisions = int_column collisions [pilot1] r,
                            Distance_Covered = distanceCovered r,
                            Rank = int_column rank [pilot1] r\<rparr>) [pilot1]\<rparr>,
          Latest_Results)"
    using normalise_race [of completed_doc "[pilot1]" pilot1 Latest_Results csv]
    by (auto simp: completed_doc_def)
  ultimately show "rows (load_race_data ?s)
       = [\<lparr>Username = Some ''pilot1'', Full_Name = None, Race_Time = Some 12.5,
           Speed = Some 40, Boosts_Used = Some (Exact 2), Collisions = Some (Exact 0),
           Distance_Covered = Some 1.2, Rank = Some (Exact 1)\<rparr>]"
    by (simp add: load_race_data_def load_race_data_try_def pilot1_def replace_at_def
        int_column_def)
qed

theorem username_normalization_witness:
  "\<exists>df. normalise (Some (Dict sigil_doc)) Latest_Results None = Inr (df, Latest_Results)
      \<and> map Username (rows df) = [Some ''ab '']
      \<and> map Race_Time (rows df) = [Some 12.5]
      \<and> map Rank (rows df) = [Some (Exact 1)]"
proof -
  have "map_of sigil_doc ''results'' = Some (JRecords [pilot1\<lparr>username := Some ''@a@b ''\<rparr>])
      \<and> (\<exists>r\<in>set [pilot1\<lparr>username := Some ''@a@b ''\<rparr>]. username r \<noteq> None)"
    by (simp add: sigil_doc_def)
  with username_normalization [of sigil_doc "[pilot1\<lparr>username := Some ''@a@b ''\<rparr>]"
      Latest_Results None]
  obtain df where "normalise (Some (Dict sigil_doc)) Latest_Results None = Inr (df, Latest_Results)"
    "map Username (rows df)
       = map (\<lambda>r. map_option (filter (\<lambda>c. c \<noteq> CHR ''@'')) (username r))
           [pilot1\<lparr>username := Some ''@a@b ''\<rparr>]"
    "map Race_Time (rows df) = map raceTime [pilot1\<lparr>username := Some ''@a@b ''\<rparr>]"
    "map Rank (rows df)
       = map (int_column rank [pilot1\<lparr>username := Some ''@a@b ''\<rparr>])
           [pilot1\<lparr>username := Some ''@a@b ''\<rparr>]"
    by blast
  then have "normalise (Some (Dict sigil_doc)) Latest_Results None = Inr (df, Latest_Results)
      \<and> map Username (rows df) = [Some ''ab '']
      \<and> map Race_Time (rows df) = [Some 12.5]
      \<and> map Rank (rows df) = [Some (Exact 1)]"
    by (simp add: pilot1_def int_column_def)
  then show ?thesis by (rule exI)
qed

text \<open>
  Claim C3 as stated fails: the user name \<open>@a@b\<close> followed by a space becomes \<open>ab\<close>
  followed by the space; the inner \<open>@\<close>, which is not a leading sigil, is removed, and
  the white space is not trimmed. And the other fields are not always preserved exactly:
  next to a record without boosts, the 2 boosts of \<open>pilot1\<close> become the float 2.0.
\<close>

theorem username_normalization_counterexample:
  "map Username (rows (load_race_data \<lparr>latest_results = Parsed (Dict sigil_doc),
                                       race_files = [], participants_csv = None\<rparr>))
     = [Some ''ab '']
   \<and> map Boosts_Used (rows (load_race_data \<lparr>latest_results = Missing,
                                            race_files = [file_partial],
                                            participants_csv = None\<rparr>))
     = [Some (Coerced 2), None]"
  by (simp add: load_race_data_def load_race_data_try_def resolve_def read_backup_def
      py_max_def file_partial_def normalise_def sigil_doc_def pilot1_def no_time_def
      rename_def clean_username_def str_accessor_def keys_of_def to_row_def int_column_def
      column_names_def replace_at_def)

text \<open>
  Claim C4, as amended. In the participant tier every row of the returned frame has race
  time, speed and distance absent. In the two race tiers the three columns are the
  fields of the input records, copied position by position: a field is absent in the
  output exactly where the input record lacks it, so the output is all-or-nothing only
  if the input is.
\<close>

theorem optional_fields_by_tier:
  "(\<not> truthy race_data \<and> normalise race_data src csv = Inr (df, src') \<longrightarrow>
      (\<forall>r\<in>set (rows df). Race_Time r = None \<and> Speed r = None \<and> Distance_Covered r = None))
   \<and> (truthy race_data \<and> normalise race_data src csv = Inr (df, src') \<longrightarrow>
      (\<exists>d rs. race_data = Some (Dict d) \<and> map_of d ''results'' = Some (JRecords rs)
          \<and> map Race_Time (rows df) = map raceTime rs
          \<and> map Speed (rows df) = map averageSpeed rs
          \<and> map Distance_Covered (rows df) = map distanceCovered rs))"
proof (intro conjI impI)
  assume "\<not> truthy race_data \<and> normalise race_data src csv = Inr (df, src')"
  then obtain rs where "rows df = map participant (enumerate 1 rs)"
    by (auto simp: normalise_def from_csv_def split: option.splits sum.splits)
  then show "\<forall>r\<in>set (rows df). Race_Time r = None \<and> Speed r = None \<and> Distance_Covered r = None"
    by (auto simp: participant_def Let_def)
next
  assume a: "truthy race_data \<and> normalise race_data src csv = Inr (df, src')"
  then obtain d rs where d: "race_data = Some (Dict d)"
    and rs: "map_of d ''results'' = Some (JRecords rs)" and u: "\<exists>r\<in>set rs. username r \<noteq> None"
    using normalise_race_inv [of race_data src csv df src'] by blast
  from u obtain r where "r \<in> set rs" "username r \<noteq> None" by blast
  with rs obtain cs where "normalise (Some (Dict d)) src csv =
     Inr (\<lparr>columns = cs,
           rows = map (\<lambda>r. \<lparr>Username = map_option replace_at (username r),
                            Full_Name = fullName r, Race_Time = raceTime r,
                            Speed = averageSpeed r, Boosts_Used = int_column boostsUsed rs r,
                            Collisions = int_column collisions rs r,
                            Distance_Covered = distanceCovered r, Rank = int_column rank rs r\<rparr>) rs\<rparr>, src)"
    using normalise_race [of d rs r src csv] by blast
  with a d have "map Race_Time (rows df) = map raceTime rs
          \<and> map Speed (rows df) = map averageSpeed rs
          \<and> map Distance_Covered (rows df) = map distanceCovered rs"
    by (auto simp: comp_def)
  with d rs show "\<exists>d rs. race_data = Some (Dict d) \<and> map_of d ''results'' = Some (JRecords rs)
          \<and> map Race_Time (rows df) = map raceTime rs
          \<and> map Speed (rows df) = map averageSpeed rs
          \<and> map Distance_Covered (rows df) = map distanceCovered rs"
    by blast
qed

theorem optional_fields_by_tier_witness:
  "map Race_Time (rows (fst (projr (normalise None Unknown (Some [ann]))))) = [None]
   \<and> map Speed (rows (fst (projr (normalise (Some (Dict partial_doc)) Latest_Results None))))
       = [Some 40, None]"
  using
    optional_fields_by_tier [of None Unknown "Some [ann]"
      "fst (projr (normalise None Unknown (Some [ann])))" CSV_participant_list]
    optional_fields_by_tier [of "Some (Dict partial_doc)" Latest_Results None
      "fst (projr (normalise (Some (Dict partial_doc)) Latest_Results None))" Latest_Results]
  by (simp add: normalise_def from_csv_def str_accessor_def ann_def participant_def
      enumerate_eq_zip partial_doc_def pilot1_def no_speed_def rename_def clean_username_def
      keys_of_def to_row_def int_column_def column_names_def)

text \<open>
  Claim C4 as stated fails: from a race file with one complete record and one record
  that has a race time but neither speed nor distance, the returned frame has a row with
  all three fields present and a row with one present and two absent.
\<close>

theorem optional_fields_by_tier_counterexample:
  "map Race_Time (rows (load_race_data \<lparr>latest_results = Parsed (Dict partial_doc),
                                        race_files = [], participants_csv = None\<rparr>))
     = [Some 12.5, Some 20]
   \<and> map Speed (rows (load_race_data \<lparr>latest_results = Parsed (Dict partial_doc),
                                      race_files = [], participants_csv = None\<rparr>))
     = [Some 40, None]
   \<and> map Distance_Covered (rows (load_race_data \<lparr>latest_results = Parsed (Dict partial_doc),
                                                 race_files = [], participants_csv = None\<rparr>))
     = [Some 1.2, None]"
  by (simp add: load_race_data_def load_race_data_try_def resolve_def normalise_def
      partial_doc_def pilot1_def no_speed_def rename_def clean_username_def str_accessor_def
      keys_of_def to_row_def int_column_def column_names_def)

lemma resolve_source: "resolve s = Inr (doc, src) \<Longrightarrow> src \<noteq> CSV_participant_list"
  using read_backup_source [of "race_files s" doc src]
  by (auto simp: resolve_def Let_def split: if_splits)

text \<open>
  Claim C9, as amended. For a race-tier input whose results are records of which at
  least one has a user name, a record that lacks numeric fields is no error and is not
  skipped: \<^verbatim>\<open>load_race_data\<close> returns one row for every input record, malformed or
  not, in the order of the input, with each missing field absent (\<open>NaN\<close>) and the
  integers of a column with a missing cell turned into floats. The result is not empty,
  so \<^verbatim>\<open>main\<close> goes on with it. The malformed records are neither collected nor
  reported: after the messages of the tier selection the only diagnostic is the number
  of all rows with the data source.
\<close>

theorem malformed_records_kept:
  "resolve s = Inr (Some (Dict d), src) \<and> map_of d ''results'' = Some (JRecords rs)
      \<and> (\<exists>r\<in>set rs. username r \<noteq> None) \<longrightarrow>
   rows (load_race_data s)
     = map (\<lambda>r. \<lparr>Username = map_option replace_at (username r),
                  Full_Name = fullName r, Race_Time = raceTime r,
                  Speed = averageSpeed r, Boosts_Used = int_column boostsUsed rs r,
                  Collisions = int_column collisions rs r,
                  Distance_Covered = distanceCovered r, Rank = int_column rank rs r\<rparr>) rs
   \<and> length (rows (load_race_data s)) = length rs
   \<and> \<not> df_empty (load_race_data s)
   \<and> diagnostics s = method1_messages (latest_results s) @ method2_messages s
                        @ [Loaded_race_data (length rs) src]"
proof
  assume a: "resolve s = Inr (Some (Dict d), src) \<and> map_of d ''results'' = Some (JRecords rs)
      \<and> (\<exists>r\<in>set rs. username r \<noteq> None)"
  let ?rows = "map (\<lambda>r. \<lparr>Username = map_option replace_at (username r),
                  Full_Name = fullName r, Race_Time = raceTime r,
                  Speed = averageSpeed r, Boosts_Used = int_column boostsUsed rs r,
                  Collisions = int_column collisions rs r,
                  Distance_Covered = distanceCovered r, Rank = int_column rank rs r\<rparr>) rs"
  from a obtain r where r: "r \<in> set rs" "username r \<noteq> None" by blast
  with a obtain cs where cs: "''Username'' \<in> set cs"
    and n: "normalise (Some (Dict d)) src (participants_csv s)
              = Inr (\<lparr>columns = cs, rows = ?rows\<rparr>, src)"
    using normalise_race [of d rs r src "participants_csv s"] by blast
  from a n have t: "load_race_data_try s = Inr (\<lparr>columns = cs, rows = ?rows\<rparr>, src)"
    by (simp add: load_race_data_try_def)
  then have l: "load_race_data s = \<lparr>columns = cs, rows = ?rows\<rparr>"
    by (simp add: load_race_data_def)
  from a have "src \<noteq> CSV_participant_list" by (auto dest: resolve_source)
  with t have m: "diagnostics s = method1_messages (latest_results s) @ method2_messages s
                        @ [Loaded_race_data (length rs) src]"
    by (simp add: diagnostics_def)
  from r have "rs \<noteq> []" by auto
  moreover from cs have "cs \<noteq> []" by auto
  ultimately show "rows (load_race_data s) = ?rows
   \<and> length (rows (load_race_data s)) = length rs
   \<and> \<not> df_empty (load_race_data s)
   \<and> diagnostics s = method1_messages (latest_results s) @ method2_messages s
                        @ [Loaded_race_data (length rs) src]"
    using m by (simp add: l df_empty_def)
qed

theorem malformed_records_kept_witness:
  "length (rows (load_race_data \<lparr>latest_results = Missing, race_files = [file_partial],
                                 participants_csv = None\<rparr>)) = 2
   \<and> diagnostics \<lparr>latest_results = Missing, race_files = [file_partial],
                  participants_csv = None\<rparr>
       = [Found_race_files 1, Loading ''rocket_race_results_C.json'',
          Loaded_race_data 2 (Backup_File ''rocket_race_results_C.json'')]"
  using malformed_records_kept [of "\<lparr>latest_results = Missing, race_files = [file_partial],
      participants_csv = None\<rparr>" "[(''results'', JRecords [pilot1, no_time])]"
      "Backup_File ''rocket_race_results_C.json''" "[pilot1, no_time]"]
  by (simp add: resolve_def read_backup_def py_max_def file_partial_def pilot1_def
      method2_messages_def)

text \<open>
  Claim C9 as stated fails: from a backup file with one well-formed record and one record
  without any of the numeric fields, the result is not the valid subset. Both records
  are returned, the malformed one with its fields absent, and the diagnostics count both
  and name neither.
\<close>

theorem malformed_records_kept_counterexample:
  "map Username (rows (load_race_data \<lparr>latest_results = Missing, race_files = [file_partial],
                                       participants_csv = None\<rparr>))
     = [Some ''pilot1'', Some ''pilot3'']
   \<and> map Race_Time (rows (load_race_data \<lparr>latest_results = Missing,
                                          race_files = [file_partial],
                                          participants_csv = None\<rparr>))
     = [Some 12.5, None]
   \<and> diagnostics \<lparr>latest_results = Missing, race_files = [file_partial],
                  participants_csv = None\<rparr>
       = [Found_race_files 1, Loading ''rocket_race_results_C.json'',
          Loaded_race_data 2 (Backup_File ''rocket_race_results_C.json'')]"
  by (simp add: diagnostics_def method2_messages_def load_race_data_def
      load_race_data_try_def resolve_def read_backup_def
      py_max_def file_partial_def normalise_def pilot1_def no_time_def rename_def
      clean_username_def str_accessor_def keys_of_def to_row_def int_column_def
      column_names_def replace_at_def)

section \<open>The computations on the frame\<close>

lemma has_race_data_eq:
  "''Race Time (s)'' \<in> set (columns df) \<Longrightarrow>
   has_race_data df = Inr (\<exists>r\<in>set (rows df). Race_Time r \<noteq> None)"
  by (auto simp: has_race_data_def column_def list_all_iff)

text \<open>
  Claim C10. Whenever \<^verbatim>\<open>main\<close> computes \<^verbatim>\<open>has_race_data\<close>, it is true exactly when
  at least one row of the frame has a race time that is present; it is computed for
  every frame with the race time column. The ranking chart is the chart of race times
  exactly when it is called with a true \<^verbatim>\<open>has_race_data\<close> and some row has a race
  time. Consequently a frame in which one row has a race time, whatever the others
  have (in particular when every other race time is absent), is classified as raced and
  drawn as a chart of race times.
\<close>

theorem raced_classification:
  "(has_race_data df = Inr b \<longrightarrow> b = (\<exists>r\<in>set (rows df). Race_Time r \<noteq> None))
   \<and> (''Race Time (s)'' \<in> set (columns df) \<longrightarrow>
        has_race_data df = Inr (\<exists>r\<in>set (rows df). Race_Time r \<noteq> None))
   \<and> (''Username'' \<in> set (columns df) \<and> ''Race Time (s)'' \<in> set (columns df)
        \<and> ''Rank'' \<in> set (columns df) \<longrightarrow>
        (\<exists>c. create_ranking_chart df b = Inr c
           \<and> (title c = Race_Times \<longleftrightarrow> b \<and> (\<exists>r\<in>set (rows df). Race_Time r \<noteq> None))))
   \<and> (''Username'' \<in> set (columns df) \<and> ''Race Time (s)'' \<in> set (columns df)
        \<and> ''Rank'' \<in> set (columns df) \<and> rows df = pre @ r # post \<and> Race_Time r = Some t
        \<and> (\<forall>x\<in>set (pre @ post). Race_Time x = None) \<longrightarrow>
        has_race_data df = Inr True
        \<and> (\<exists>c. create_ranking_chart df True = Inr c \<and> title c = Race_Times))"
proof (intro conjI impI)
  assume "has_race_data df = Inr b"
  then show "b = (\<exists>r\<in>set (rows df). Race_Time r \<noteq> None)"
    by (auto simp: has_race_data_def column_def list_all_iff split: if_splits)
next
  assume "''Race Time (s)'' \<in> set (columns df)"
  then show "has_race_data df = Inr (\<exists>r\<in>set (rows df). Race_Time r \<noteq> None)"
    by (rule has_race_data_eq)
next
  assume "''Username'' \<in> set (columns df) \<and> ''Race Time (s)'' \<in> set (columns df)
        \<and> ''Rank'' \<in> set (columns df)"
  then show "\<exists>c. create_ranking_chart df b = Inr c
           \<and> (title c = Race_Times \<longleftrightarrow> b \<and> (\<exists>r\<in>set (rows df). Race_Time r \<noteq> None))"
    by (auto simp: create_ranking_chart_def column_def list_all_iff Let_def)
next
  assume a: "''Username'' \<in> set (columns df) \<and> ''Race Time (s)'' \<in> set (columns df)
        \<and> ''Rank'' \<in> set (columns df) \<and> rows df = pre @ r # post \<and> Race_Time r = Some t
        \<and> (\<forall>x\<in>set (pre @ post). Race_Time x = None)"
  then show "has_race_data df = Inr True" by (simp add: has_race_data_eq) 
  from a show "\<exists>c. create_ranking_chart df True = Inr c \<and> title c = Race_Times"
    by (auto simp: create_ranking_chart_def column_def list_all_iff Let_def)
qed

theorem raced_classification_witness:
  "has_race_data one_time_frame = Inr True
   \<and> (\<exists>c. create_ranking_chart one_time_frame True = Inr c \<and> title c = Race_Times)
   \<and> has_race_data pending_frame = Inr False"
  using
    raced_classification [where df = one_time_frame and b = True
      and pre = "[racer ''a'' None 0 1]" and r = "racer ''b'' (Some 11) 7 2"
      and post = "[racer ''c'' None 0 3]" and t = 11]
    raced_classification [where df = pending_frame and b = False]
  by (simp add: one_time_frame_def pending_frame_def all_columns_def racer_def)































text \<open>
  Claim C8, at the failing input. The comment of line 296 asks for a case-insensitive
  partial match, and the specification for a substring match, but
  \<^verbatim>\<open>str.contains\<close> is called without \<^verbatim>\<open>regex=False\<close> (which line 115 does pass
  to \<^verbatim>\<open>str.replace\<close>). For the query that is a single dot, which is no substring of
  the user name \<open>pilot1\<close>, the participant table and the search cards both return the
  row of \<open>pilot1\<close> instead of an empty result.
\<close>

theorem search_regex_failing_input:
  "\<forall>re fl. (\<nexists>pre post. map lower ''pilot1'' = pre @ map lower ''.'' @ post)
     \<and> participant_table re ''.'' None (load_race_data pending_pilot)
         = Inr (Some [(Some ''pilot1'', Some ''pilot1'')])
     \<and> search_cards re fl ''.'' single_frame = Inr [(racer ''pilot1'' (Some 12.5) 2 1, None)]"
proof (intro allI conjI)
  fix re :: "string \<Rightarrow> error + (string \<Rightarrow> bool)" and fl :: float_ops
  show "\<nexists>pre post. map lower ''pilot1'' = pre @ map lower ''.'' @ post"
  proof
    assume "\<exists>pre post. map lower ''pilot1'' = pre @ map lower ''.'' @ post"
    then obtain pre post where e: "map lower ''pilot1'' = pre @ map lower ''.'' @ post"
      by blast
    have "lower CHR ''.'' \<in> set (pre @ map lower ''.'' @ post)" by simp
    with e have "lower CHR ''.'' \<in> set (map lower ''pilot1'')" by simp
    then show False by (simp add: lower_def)
  qed
  show "participant_table re ''.'' None (load_race_data pending_pilot)
         = Inr (Some [(Some ''pilot1'', Some ''pilot1'')])"
    by (simp add: participant_table_def df_empty_def has_race_data_def read_columns_def
        str_contains_def column_def re_compile_def re_special_def atom_match_def
        load_race_data_def load_race_data_try_def resolve_def normalise_def from_csv_def
        str_accessor_def participant_def enumerate_eq_zip strip_def isspace_def
        pending_pilot_def all_columns_def Let_def)
  show "search_cards re fl ''.'' single_frame = Inr [(racer ''pilot1'' (Some 12.5) 2 1, None)]"
    by (simp add: search_cards_def df_empty_def has_race_data_def read_columns_def
        performance_comparison_def
        str_contains_def column_def re_compile_def re_special_def atom_match_def
        single_frame_def all_columns_def racer_def)
qed

end
